theory Spec2Isabelle
  imports Main
begin

section \<open>The tabular engine: frames, columns and the operations \<open>f_2258\<close> calls\<close>

text \<open>
  \<open>f_2258(df, category_col, sales_col)\<close> is five statements over two libraries. The
  embedding below follows the function line by line; the library calls it makes
  (\<open>df.empty\<close>, \<open>df[col]\<close>, \<open>.dtype.kind\<close>, \<open>.duplicated().any()\<close>, \<open>df.set_index\<close>,
  \<open>Series.plot(kind='bar')\<close>, \<open>plt.ylabel\<close>, \<open>plt.show\<close>, \<open>logging.error\<close>) are
  modelled as far as the function can observe them.

  A cell is \<open>'v option\<close>: \<open>None\<close> is a missing value (NaN), \<open>Some v\<close> a present one. The
  value type \<open>'v\<close> stays abstract: the function never computes with a cell, it only
  compares category cells for equality and hands sales cells to the plot. Equality on
  \<open>'v option\<close> is the engine's notion of "the same key" (two missing values count as
  equal in \<open>duplicated\<close>).
\<close>

text \<open>The one-character code \<open>dtype.kind\<close> of a column's element type.\<close>

datatype dtype_kind =
  KBool | KInt | KUInt | KFloat | KComplex | KTimedelta | KDatetime | KObject
  | KBytes | KUnicode | KVoid

fun kind_char :: "dtype_kind \<Rightarrow> char" where
  "kind_char KBool = CHR ''b''"
| "kind_char KInt = CHR ''i''"
| "kind_char KUInt = CHR ''u''"
| "kind_char KFloat = CHR ''f''"
| "kind_char KComplex = CHR ''c''"
| "kind_char KTimedelta = CHR ''m''"
| "kind_char KDatetime = CHR ''M''"
| "kind_char KObject = CHR ''O''"
| "kind_char KBytes = CHR ''S''"
| "kind_char KUnicode = CHR ''U''"
| "kind_char KVoid = CHR ''V''"

record 'v column =
  kind :: dtype_kind
  cells :: "'v option list"

text \<open>
  A frame: its row labels (one per row) and its columns by label, in column order.
  The engine keeps every column as long as the index and, in the frames considered
  here, the column labels distinct; \<open>wf_frame\<close> says so.
\<close>

record 'v dataframe =
  index :: "'v option list"
  columns :: "(string \<times> 'v column) list"

definition wf_frame :: "'v dataframe \<Rightarrow> bool" where
  "wf_frame d =
     (distinct (map fst (columns d)) \<and>
      list_all (\<lambda>nc. length (cells (snd nc)) = length (index d)) (columns d))"

text \<open>A series: one column together with the row labels of the frame it came from.\<close>

record 'v series =
  s_index :: "'v option list"
  s_kind :: dtype_kind
  s_values :: "'v option list"

datatype error = ValueError string | KeyError string | TypeError string

text \<open>\<open>df.empty\<close>: true when either axis has length 0.\<close>

definition df_empty :: "'v dataframe \<Rightarrow> bool" where
  "df_empty d = (index d = [] \<or> columns d = [])"

text \<open>
  \<open>df[name]\<close>: the column as a series, or \<open>KeyError(name)\<close>. This is the lookup of a
  frame whose column labels are distinct (\<open>wf_frame\<close>); a label carried by several
  columns selects a frame instead of a series, which is not modelled, and the statements
  about a lookup below assume \<open>wf_frame\<close>.
\<close>

definition getitem :: "'v dataframe \<Rightarrow> string \<Rightarrow> error + 'v series" where
  "getitem d name =
     (case map_of (columns d) name of
        None \<Rightarrow> Inl (KeyError name)
      | Some c \<Rightarrow> Inr \<lparr>s_index = index d, s_kind = kind c, s_values = cells c\<rparr>)"

text \<open>
  \<open>Series.duplicated()\<close> with its default \<open>keep='first'\<close>: entry \<open>i\<close> is true when
  the value of row \<open>i\<close> already occurred in an earlier row.
\<close>

fun duplicated_from :: "'a list \<Rightarrow> 'a list \<Rightarrow> bool list" where
  "duplicated_from seen [] = []"
| "duplicated_from seen (x # xs) = (x \<in> set seen) # duplicated_from (x # seen) xs"

definition duplicated :: "'v series \<Rightarrow> bool list" where
  "duplicated ser = duplicated_from [] (s_values ser)"

text \<open>\<open>.any()\<close> of a boolean series.\<close>

definition any_true :: "bool list \<Rightarrow> bool" where
  "any_true bs = (True \<in> set bs)"

text \<open>
  \<open>df.set_index(name)\<close> with its defaults \<open>drop=True, inplace=False\<close>: a new frame
  whose row labels are the cells of the column and which no longer has that column.
  The frame it is called on is not touched.
\<close>

definition set_index :: "'v dataframe \<Rightarrow> string \<Rightarrow> error + 'v dataframe" where
  "set_index d name =
     (case map_of (columns d) name of
        None \<Rightarrow> Inl (KeyError name)
      | Some c \<Rightarrow>
          Inr \<lparr>index = cells c, columns = filter (\<lambda>nc. fst nc \<noteq> name) (columns d)\<rparr>)"

section \<open>The plotting engine and the logger\<close>

text \<open>
  A bar is a rectangle at a tick position with a height. An axes object holds its
  bars (\<open>ax.patches\<close>), the tick labels, the title and the y-axis label.
\<close>

record 'v bar =
  pos :: nat
  height :: 'v

record 'v axes =
  patches :: "'v bar list"
  xticklabels :: "'v option list"
  title :: string
  ylabel :: string

definition empty_axes :: "'v axes" where
  "empty_axes = \<lparr>patches = [], xticklabels = [], title = [], ylabel = []\<rparr>"

datatype level = DEBUG | INFO | WARNING | ERROR | CRITICAL

text \<open>
  The state a call runs in.
  \<^item> \<open>df\<close> is the caller's DataFrame object. Python passes it by reference, so it is
    kept in the state: an in-place update by the function would show there.
  \<^item> \<open>log\<close> is what the root logger has emitted. Line 5 of the module configures it at
    level INFO, so an ERROR record is emitted.
  \<^item> \<open>heap\<close> holds the Axes objects; an object's address is its position. \<open>current\<close>
    is the address of pyplot's current axes, \<open>None\<close> when no figure is open.
    \<open>plt.ylabel\<close> and the handle the function returns refer to the same object, which is
    why addresses are modelled.
  \<^item> \<open>shown\<close> lists the axes handed to the backend by \<open>plt.show()\<close>; \<open>show_closes\<close> says
    whether the backend closes the figures once shown (a blocking or inline backend)
    or leaves them open (a non-interactive one).
\<close>

record 'v state =
  df :: "'v dataframe"
  log :: "(level \<times> string) list"
  heap :: "'v axes list"
  current :: "nat option"
  shown :: "nat list"
  show_closes :: bool

definition wf_state :: "'v state \<Rightarrow> bool" where
  "wf_state s = (case current s of None \<Rightarrow> True | Some a \<Rightarrow> a < length (heap s))"

text \<open>\<open>logging.error(msg)\<close>.\<close>

definition logging_error :: "string \<Rightarrow> 'v state \<Rightarrow> 'v state" where
  "logging_error msg s = s\<lparr>log := log s @ [(ERROR, msg)]\<rparr>"

text \<open>
  \<open>plt.gca()\<close>: the current axes; when no figure is open, a new figure with one empty
  axes is created and becomes current.
\<close>

definition gca :: "'v state \<Rightarrow> nat \<times> 'v state" where
  "gca s =
     (case current s of
        Some a \<Rightarrow> (a, s)
      | None \<Rightarrow>
          (length (heap s),
           s\<lparr>heap := heap s @ [empty_axes], current := Some (length (heap s))\<rparr>))"

text \<open>
  The element kinds a bar plot accepts: the plot keeps numbers, datetimes and
  timedeltas. Booleans are not among them (they are only plotted on request,
  \<open>include_bool\<close>, which the call does not make), nor are strings. An object column
  is first given a chance to be read as numbers; \<open>f_2258\<close> never plots one, since line 33
  rejects every kind outside \<open>'biufc'\<close>, so the kinds that reach the plot are boolean,
  integer, unsigned integer, float and complex.
\<close>

fun plottable :: "dtype_kind \<Rightarrow> bool" where
  "plottable KInt = True"
| "plottable KUInt = True"
| "plottable KFloat = True"
| "plottable KComplex = True"
| "plottable KTimedelta = True"
| "plottable KDatetime = True"
| "plottable _ = False"

text \<open>A bar plot draws a missing value as a bar of height 0 (\<open>fillna(0)\<close>).\<close>

definition fillna0 :: "('v::zero) option \<Rightarrow> 'v" where
  "fillna0 c = (case c of None \<Rightarrow> 0 | Some v \<Rightarrow> v)"

definition bars_of :: "('v::zero) option list \<Rightarrow> 'v bar list" where
  "bars_of cs = map (\<lambda>ic. \<lparr>pos = fst ic, height = fillna0 (snd ic)\<rparr>) (enumerate 0 cs)"

text \<open>
  \<open>Series.plot(kind='bar', title=t)\<close>. The plot of a series takes pyplot's current
  axes when a figure is open and the axes of a new figure when none is. A series with
  nothing plottable then raises \<open>TypeError\<close>: nothing has been drawn, but a figure made
  for the call stays behind, with its empty axes. Otherwise the bars are added to the
  patches of the axes, one per row in row order, the tick labels become the row labels
  and the title is set. It returns the axes.
\<close>

definition plot_bar ::
  "('v::zero) series \<Rightarrow> string \<Rightarrow> 'v state \<Rightarrow> (error + nat) \<times> 'v state" where
  "plot_bar ser t s =
     (case gca s of
        (a, s1) \<Rightarrow>
          if \<not> plottable (s_kind ser)
          then (Inl (TypeError ''no numeric data to plot''), s1)
          else
            (Inr a,
             s1\<lparr>heap := (heap s1)
                [a := (heap s1 ! a)
                   \<lparr>patches := patches (heap s1 ! a) @ bars_of (s_values ser),
                    xticklabels := s_index ser,
                    title := t\<rparr>]\<rparr>))"

text \<open>\<open>plt.ylabel(l)\<close>: sets the y-axis label of the current axes.\<close>

definition plt_ylabel :: "string \<Rightarrow> 'v state \<Rightarrow> 'v state" where
  "plt_ylabel l s =
     (case gca s of
        (a, s1) \<Rightarrow> s1\<lparr>heap := (heap s1)[a := (heap s1 ! a)\<lparr>ylabel := l\<rparr>]\<rparr>)"

text \<open>\<open>plt.show()\<close>: hands the open figure to the backend.\<close>

definition plt_show :: "'v state \<Rightarrow> 'v state" where
  "plt_show s =
     s\<lparr>shown := shown s @ (case current s of None \<Rightarrow> [] | Some a \<Rightarrow> [a]),
       current := (if show_closes s then None else current s)\<rparr>"

section \<open>The function\<close>

text \<open>What a Python call can return: \<open>None\<close>, or a reference to an Axes object.\<close>

datatype pyobject = PyNone | AxesRef nat

definition msg_invalid :: string where
  "msg_invalid = ''DataFrame is empty, lacks sales data, or sales data is not numeric.''"

definition msg_duplicate :: string where
  "msg_duplicate = ''DataFrame contains duplicate entries in the category column.''"

definition chart_title :: string where
  "chart_title = ''Sales Report by Category''"

text \<open>
  \<open>f_2258\<close>, lines 33 to 44. The test of line 33 is
  \<open>df.empty or not (df[sales_col].dtype.kind in 'biufc')\<close>: \<open>or\<close> does not evaluate its
  right operand when \<open>df.empty\<close> holds, and \<open>in\<close> on a one-character string is
  membership among the characters of \<open>'biufc'\<close>. An exception of a library call
  leaves the function at once, with the state as it is then.
\<close>

definition f_2258 ::
  "string \<Rightarrow> string \<Rightarrow> ('v::zero) state \<Rightarrow> (error + pyobject) \<times> 'v state" where
  "f_2258 category_col sales_col s =
     (case (if df_empty (df s) then Inr True
            else (case getitem (df s) sales_col of
                    Inl e \<Rightarrow> Inl e
                  | Inr sales \<Rightarrow> Inr (\<not> kind_char (s_kind sales) \<in> set ''biufc''))) of
        Inl e \<Rightarrow> (Inl e, s)
      | Inr True \<Rightarrow> (Inl (ValueError msg_invalid), logging_error msg_invalid s)
      | Inr False \<Rightarrow>
          (case getitem (df s) category_col of
             Inl e \<Rightarrow> (Inl e, s)
           | Inr cat \<Rightarrow>
               if any_true (duplicated cat)
               then (Inl (ValueError msg_duplicate), logging_error msg_duplicate s)
               else
                 (case set_index (df s) category_col of
                    Inl e \<Rightarrow> (Inl e, s)
                  | Inr indexed \<Rightarrow>
                      (case getitem indexed sales_col of
                         Inl e \<Rightarrow> (Inl e, s)
                       | Inr ser \<Rightarrow>
                           (case plot_bar ser chart_title s of
                              (Inl e, s1) \<Rightarrow> (Inl e, s1)
                            | (Inr ax, s1) \<Rightarrow>
                                (Inr (AxesRef ax), plt_show (plt_ylabel ''Sales'' s1)))))))"

section \<open>Concrete frames: the scenarios of the module's tests\<close>

text \<open>
  A value type for concrete frames: strings and integers, with the integer 0 as the
  zero a missing bar is drawn at.
\<close>

datatype scalar = Str string | Num int

instantiation scalar :: zero
begin
definition zero_scalar_def: "0 = Num 0"
instance ..
end

definition range_index :: "nat \<Rightarrow> scalar option list" where
  "range_index n = map (\<lambda>i. Some (Num (int i))) [0..<n]"

text \<open>\<open>df_setup\<close> of the tests and of the docstring's example.\<close>

definition df_setup :: "scalar dataframe" where
  "df_setup =
     \<lparr>index = range_index 5,
      columns =
        [(''Category'',
          \<lparr>kind = KObject,
           cells = [Some (Str ''Electronics''), Some (Str ''Clothing''), Some (Str ''Home''),
                    Some (Str ''Books''), Some (Str ''Sports'')]\<rparr>),
         (''Sales'',
          \<lparr>kind = KInt,
           cells = [Some (Num 1000), Some (Num 1500), Some (Num 1200), Some (Num 800),
                    Some (Num 1100)]\<rparr>)]\<rparr>"

text \<open>\<open>df_setup.head(1)\<close>.\<close>

definition df_single :: "scalar dataframe" where
  "df_single =
     \<lparr>index = range_index 1,
      columns =
        [(''Category'', \<lparr>kind = KObject, cells = [Some (Str ''Electronics'')]\<rparr>),
         (''Sales'', \<lparr>kind = KInt, cells = [Some (Num 1000)]\<rparr>)]\<rparr>"

text \<open>\<open>pd.DataFrame(columns=['Category', 'Sales'])\<close>: two object columns, no rows.\<close>

definition df_no_rows :: "scalar dataframe" where
  "df_no_rows =
     \<lparr>index = [],
      columns =
        [(''Category'', \<lparr>kind = KObject, cells = []\<rparr>),
         (''Sales'', \<lparr>kind = KObject, cells = []\<rparr>)]\<rparr>"

text \<open>\<open>pd.concat([df_setup, df_setup]).reset_index(drop=True)\<close>.\<close>

definition df_duplicate :: "scalar dataframe" where
  "df_duplicate =
     \<lparr>index = range_index 10,
      columns =
        map (\<lambda>nc. (fst nc, \<lparr>kind = kind (snd nc), cells = cells (snd nc) @ cells (snd nc)\<rparr>))
          (columns df_setup)\<rparr>"

text \<open>Sales recorded as text: an object column.\<close>

definition df_text_sales :: "scalar dataframe" where
  "df_text_sales =
     \<lparr>index = range_index 2,
      columns =
        [(''Category'', \<lparr>kind = KObject, cells = [Some (Str ''Home''), Some (Str ''Home'')]\<rparr>),
         (''Sales'', \<lparr>kind = KObject, cells = [Some (Str ''high''), Some (Str ''low'')]\<rparr>)]\<rparr>"

text \<open>A boolean sales column, and a float sales column with a missing value.\<close>

definition df_bool_sales :: "scalar dataframe" where
  "df_bool_sales =
     \<lparr>index = range_index 2,
      columns =
        [(''Category'', \<lparr>kind = KObject, cells = [Some (Str ''Home''), Some (Str ''Books'')]\<rparr>),
         (''Sales'', \<lparr>kind = KBool, cells = [Some (Num 1), Some (Num 0)]\<rparr>)]\<rparr>"

definition df_missing_sales :: "scalar dataframe" where
  "df_missing_sales =
     \<lparr>index = range_index 2,
      columns =
        [(''Category'', \<lparr>kind = KObject, cells = [Some (Str ''Home''), Some (Str ''Books'')]\<rparr>),
         (''Sales'', \<lparr>kind = KFloat, cells = [Some (Num 1200), None]\<rparr>)]\<rparr>"

text \<open>
  A call made in a fresh process: nothing logged, no figure open, a backend that
  leaves figures open after \<open>plt.show()\<close>.
\<close>

definition fresh :: "'v dataframe \<Rightarrow> 'v state" where
  "fresh d = \<lparr>df = d, log = [], heap = [], current = None, shown = [], show_closes = False\<rparr>"

section \<open>Facts about the library operations\<close>

lemma duplicated_from_any:
  "True \<in> set (duplicated_from seen xs) \<longleftrightarrow> \<not> distinct xs \<or> set xs \<inter> set seen \<noteq> {}"
  by (induction xs arbitrary: seen) auto

lemma any_duplicated: "any_true (duplicated ser) \<longleftrightarrow> \<not> distinct (s_values ser)"
  by (simp add: any_true_def duplicated_def duplicated_from_any)

lemma msg_differ: "msg_invalid \<noteq> msg_duplicate"
  by (simp add: msg_invalid_def msg_duplicate_def)

lemma numeric_kind_iff:
  "kind_char k \<in> set ''biufc'' \<longleftrightarrow> k \<in> {KBool, KInt, KUInt, KFloat, KComplex}"
  by (cases k) simp_all

lemma plottable_iff:
  "plottable k \<longleftrightarrow> k \<in> {KInt, KUInt, KFloat, KComplex, KTimedelta, KDatetime}"
  by (cases k) simp_all

lemma map_of_dropped: "map_of (filter (\<lambda>nc. fst nc \<noteq> name) cols) name = None"
  by (induction cols) auto

lemma map_of_kept:
  "other \<noteq> name \<Longrightarrow> map_of (filter (\<lambda>nc. fst nc \<noteq> name) cols) other = map_of cols other"
  by (induction cols) auto

lemma df_empty_column:
  "index d \<noteq> [] \<Longrightarrow> map_of (columns d) name = Some c \<Longrightarrow> \<not> df_empty d"
  by (auto simp: df_empty_def)

section \<open>The paths through \<open>f_2258\<close>\<close>

text \<open>
  One lemma per way out of the function, in the order of the source: the test of
  line 33, the lookup and test of line 37, and the three calls of line 41.
\<close>

lemma f_2258_empty:
  assumes "df_empty (df s)"
  shows "f_2258 category_col sales_col s =
           (Inl (ValueError msg_invalid), logging_error msg_invalid s)"
  using assms by (simp add: f_2258_def)

lemma f_2258_no_sales_column:
  assumes "\<not> df_empty (df s)" and "map_of (columns (df s)) sales_col = None"
  shows "f_2258 category_col sales_col s = (Inl (KeyError sales_col), s)"
  using assms by (simp add: f_2258_def getitem_def)

lemma f_2258_not_numeric:
  assumes "\<not> df_empty (df s)" and "map_of (columns (df s)) sales_col = Some c"
    and "kind_char (kind c) \<notin> set ''biufc''"
  shows "f_2258 category_col sales_col s =
           (Inl (ValueError msg_invalid), logging_error msg_invalid s)"
  using assms by (simp add: f_2258_def getitem_def)

lemma f_2258_no_category_column:
  assumes "\<not> df_empty (df s)" and "map_of (columns (df s)) sales_col = Some c"
    and "kind_char (kind c) \<in> set ''biufc''"
    and "map_of (columns (df s)) category_col = None"
  shows "f_2258 category_col sales_col s = (Inl (KeyError category_col), s)"
  using assms by (simp add: f_2258_def getitem_def)

lemma f_2258_duplicates:
  assumes "\<not> df_empty (df s)" and "map_of (columns (df s)) sales_col = Some c"
    and "kind_char (kind c) \<in> set ''biufc''"
    and "map_of (columns (df s)) category_col = Some g"
    and "\<not> distinct (cells g)"
  shows "f_2258 category_col sales_col s =
           (Inl (ValueError msg_duplicate), logging_error msg_duplicate s)"
  using assms by (simp add: f_2258_def getitem_def any_duplicated)

lemma f_2258_same_column:
  assumes "\<not> df_empty (df s)" and "map_of (columns (df s)) col = Some c"
    and "kind_char (kind c) \<in> set ''biufc''"
    and "distinct (cells c)"
  shows "f_2258 col col s = (Inl (KeyError col), s)"
  using assms
  by (simp add: f_2258_def getitem_def any_duplicated set_index_def map_of_dropped)

lemma f_2258_not_plottable:
  assumes "\<not> df_empty (df s)" and "map_of (columns (df s)) sales_col = Some c"
    and "kind_char (kind c) \<in> set ''biufc''"
    and "map_of (columns (df s)) category_col = Some g"
    and "distinct (cells g)"
    and "category_col \<noteq> sales_col"
    and "\<not> plottable (kind c)"
  shows "f_2258 category_col sales_col s =
           (Inl (TypeError ''no numeric data to plot''), snd (gca s))"
  using assms
  by (simp add: f_2258_def getitem_def any_duplicated set_index_def map_of_kept plot_bar_def
      split: prod.splits)

lemma f_2258_plots:
  assumes "\<not> df_empty (df s)" and "map_of (columns (df s)) sales_col = Some c"
    and "kind_char (kind c) \<in> set ''biufc''"
    and "map_of (columns (df s)) category_col = Some g"
    and "distinct (cells g)"
    and "category_col \<noteq> sales_col"
    and "plottable (kind c)"
  shows "f_2258 category_col sales_col s =
           (Inr (AxesRef (fst (gca s))),
            plt_show (plt_ylabel ''Sales''
              (snd (plot_bar \<lparr>s_index = cells g, s_kind = kind c, s_values = cells c\<rparr>
                      chart_title s))))"
  using assms
  by (simp add: f_2258_def getitem_def any_duplicated set_index_def map_of_kept plot_bar_def
      split: prod.splits)

section \<open>The state after a successful plot\<close>

lemma plot_fresh:
  assumes "current s = None" and "plottable (s_kind ser)"
  shows "plt_show (plt_ylabel l (snd (plot_bar ser t s))) =
           s\<lparr>heap := heap s @
                  [\<lparr>patches = bars_of (s_values ser), xticklabels = s_index ser,
                    title = t, ylabel = l\<rparr>],
             current := (if show_closes s then None else Some (length (heap s))),
             shown := shown s @ [length (heap s)]\<rparr>"
  using assms
  by (simp add: plot_bar_def gca_def plt_ylabel_def plt_show_def empty_axes_def)

lemma plot_reuse:
  assumes "current s = Some a" and "a < length (heap s)" and "plottable (s_kind ser)"
  shows "plt_show (plt_ylabel l (snd (plot_bar ser t s))) =
           s\<lparr>heap := (heap s)
                  [a := (heap s ! a)
                     \<lparr>patches := patches (heap s ! a) @ bars_of (s_values ser),
                      xticklabels := s_index ser, title := t, ylabel := l\<rparr>],
             current := (if show_closes s then None else Some a),
             shown := shown s @ [a]\<rparr>"
  using assms
  by (simp add: plot_bar_def gca_def plt_ylabel_def plt_show_def)

lemma gca_fresh: "current s = None \<Longrightarrow> fst (gca s) = length (heap s)"
  by (simp add: gca_def)

lemma gca_reuse: "current s = Some a \<Longrightarrow> fst (gca s) = a"
  by (simp add: gca_def)

lemma bars_of_length: "length (bars_of cs) = length cs"
  by (simp add: bars_of_def)

lemma wf_frame_column_length:
  assumes "wf_frame d" and "map_of (columns d) name = Some c"
  shows "length (cells c) = length (index d)"
proof -
  from assms(2) have "(name, c) \<in> set (columns d)" by (rule map_of_SomeD)
  with assms(1) show ?thesis by (auto simp: wf_frame_def list_all_iff)
qed

section \<open>All the ways out of a call\<close>

lemma f_2258_cases:
  obtains
    (invalid) "f_2258 category_col sales_col s =
                 (Inl (ValueError msg_invalid), logging_error msg_invalid s)"
  | (duplicate) "f_2258 category_col sales_col s =
                 (Inl (ValueError msg_duplicate), logging_error msg_duplicate s)"
  | (key) k where "f_2258 category_col sales_col s = (Inl (KeyError k), s)"
  | (type) "f_2258 category_col sales_col s =
              (Inl (TypeError ''no numeric data to plot''), snd (gca s))"
  | (plots) c g where "\<not> df_empty (df s)"
      and "map_of (columns (df s)) sales_col = Some c"
      and "kind_char (kind c) \<in> set ''biufc''"
      and "map_of (columns (df s)) category_col = Some g"
      and "distinct (cells g)"
      and "category_col \<noteq> sales_col"
      and "plottable (kind c)"
      and "f_2258 category_col sales_col s =
             (Inr (AxesRef (fst (gca s))),
              plt_show (plt_ylabel ''Sales''
                (snd (plot_bar \<lparr>s_index = cells g, s_kind = kind c, s_values = cells c\<rparr>
                        chart_title s))))"
proof (cases "df_empty (df s)")
  case True
  then show ?thesis using invalid f_2258_empty by blast
next
  case nonempty: False
  show ?thesis
  proof (cases "map_of (columns (df s)) sales_col")
    case None
    with nonempty show ?thesis using key f_2258_no_sales_column by blast
  next
    case sales: (Some c)
    show ?thesis
    proof (cases "kind_char (kind c) \<in> set ''biufc''")
      case False
      with nonempty sales show ?thesis using invalid f_2258_not_numeric by blast
    next
      case numeric: True
      show ?thesis
      proof (cases "map_of (columns (df s)) category_col")
        case None
        with nonempty sales numeric show ?thesis
          using key f_2258_no_category_column by blast
      next
        case cat: (Some g)
        show ?thesis
        proof (cases "distinct (cells g)")
          case False
          with nonempty sales numeric cat show ?thesis
            using duplicate f_2258_duplicates by blast
        next
          case uniq: True
          show ?thesis
          proof (cases "category_col = sales_col")
            case True
            with nonempty sales numeric cat uniq show ?thesis
              using key [of sales_col] f_2258_same_column [of s sales_col c] by simp
          next
            case differ: False
            show ?thesis
            proof (cases "plottable (kind c)")
              case False
              with nonempty sales numeric cat uniq differ show ?thesis
                using type f_2258_not_plottable by blast
            next
              case True
              with nonempty sales numeric cat uniq differ show ?thesis
                using plots f_2258_plots by blast
            qed
          qed
        qed
      qed
    qed
  qed
qed

lemma bars_of_nth:
  "i < length cs \<Longrightarrow> bars_of cs ! i = \<lparr>pos = i, height = fillna0 (cs ! i)\<rparr>"
  by (simp add: bars_of_def nth_enumerate_eq)

lemma gca_open: "current s = Some a \<Longrightarrow> snd (gca s) = s"
  by (simp add: gca_def)

lemma gca_new:
  "current s = None \<Longrightarrow>
   snd (gca s) = s\<lparr>heap := heap s @ [empty_axes], current := Some (length (heap s))\<rparr>"
  by (simp add: gca_def)

section \<open>The validation of line 33\<close>

text \<open>
  Claim C2. A frame with no rows, and a frame with rows whose sales column is not of
  one of the kinds boolean, integer, unsigned integer, float and complex, makes the call
  raise \<open>ValueError\<close> with the message of line 35.
\<close>

theorem invalid_data_error:
  assumes "index (df s) = [] \<or>
           (wf_frame (df s) \<and> index (df s) \<noteq> [] \<and>
            map_of (columns (df s)) sales_col = Some c \<and>
            kind c \<notin> {KBool, KInt, KUInt, KFloat, KComplex})"
  shows "fst (f_2258 category_col sales_col s) =
           Inl (ValueError
             ''DataFrame is empty, lacks sales data, or sales data is not numeric.'')"
  using assms
proof
  assume "index (df s) = []"
  then have "df_empty (df s)" by (simp add: df_empty_def)
  then show ?thesis by (simp add: f_2258_empty msg_invalid_def)
next
  assume h: "wf_frame (df s) \<and> index (df s) \<noteq> [] \<and>
             map_of (columns (df s)) sales_col = Some c \<and>
             kind c \<notin> {KBool, KInt, KUInt, KFloat, KComplex}"
  then have ne: "\<not> df_empty (df s)" using df_empty_column by blast
  from h have "kind_char (kind c) \<notin> set ''biufc''"
    by (simp only: numeric_kind_iff) simp
  with ne h have "f_2258 category_col sales_col s =
      (Inl (ValueError msg_invalid), logging_error msg_invalid s)"
    using f_2258_not_numeric by blast
  then show ?thesis by (simp add: msg_invalid_def)
qed

theorem invalid_data_error_witness:
  "index (df (fresh df_no_rows)) = [] \<and>
   fst (f_2258 ''Category'' ''Sales'' (fresh df_no_rows)) =
     Inl (ValueError
       ''DataFrame is empty, lacks sales data, or sales data is not numeric.'') \<and>
   wf_frame (df (fresh df_text_sales)) \<and>
   index (df (fresh df_text_sales)) \<noteq> [] \<and>
   map_of (columns (df (fresh df_text_sales))) ''Sales'' =
     Some \<lparr>kind = KObject, cells = [Some (Str ''high''), Some (Str ''low'')]\<rparr> \<and>
   fst (f_2258 ''Category'' ''Sales'' (fresh df_text_sales)) =
     Inl (ValueError
       ''DataFrame is empty, lacks sales data, or sales data is not numeric.'')"
proof -
  have a: "index (df (fresh df_no_rows)) = []"
    by (simp add: fresh_def df_no_rows_def)
  have b: "wf_frame (df (fresh df_text_sales)) \<and>
           index (df (fresh df_text_sales)) \<noteq> [] \<and>
           map_of (columns (df (fresh df_text_sales))) ''Sales'' =
             Some \<lparr>kind = KObject, cells = [Some (Str ''high''), Some (Str ''low'')]\<rparr>"
    by (simp add: wf_frame_def fresh_def df_text_sales_def range_index_def)
  have "fst (f_2258 ''Category'' ''Sales'' (fresh df_no_rows)) =
          Inl (ValueError
            ''DataFrame is empty, lacks sales data, or sales data is not numeric.'')"
    using invalid_data_error [where s = "fresh df_no_rows"] a by blast
  moreover have "fst (f_2258 ''Category'' ''Sales'' (fresh df_text_sales)) =
          Inl (ValueError
            ''DataFrame is empty, lacks sales data, or sales data is not numeric.'')"
    using invalid_data_error [where s = "fresh df_text_sales" and sales_col = "''Sales''"
        and c = "\<lparr>kind = KObject, cells = [Some (Str ''high''), Some (Str ''low'')]\<rparr>"] b
    by simp
  ultimately show ?thesis using a b by simp
qed

text \<open>
  Claim C9. On a frame with no rows the call raises that \<open>ValueError\<close> whatever the two
  column names are, also names the frame does not have: \<open>df.empty\<close> decides before a
  column is looked up, so no \<open>KeyError\<close> is raised.
\<close>

theorem no_rows_never_key_error:
  assumes "index (df s) = []"
  shows "fst (f_2258 category_col sales_col s) =
           Inl (ValueError
             ''DataFrame is empty, lacks sales data, or sales data is not numeric.'') \<and>
         (\<forall>k. fst (f_2258 category_col sales_col s) \<noteq> Inl (KeyError k))"
proof -
  from assms have "df_empty (df s)" by (simp add: df_empty_def)
  then have "f_2258 category_col sales_col s =
               (Inl (ValueError msg_invalid), logging_error msg_invalid s)"
    by (rule f_2258_empty)
  then show ?thesis by (simp add: msg_invalid_def)
qed

theorem no_rows_never_key_error_witness:
  "index (df (fresh df_no_rows)) = [] \<and>
   map_of (columns (df (fresh df_no_rows))) ''Revenue'' = None \<and>
   map_of (columns (df (fresh df_no_rows))) ''NonexistentCategory'' = None \<and>
   fst (f_2258 ''NonexistentCategory'' ''Revenue'' (fresh df_no_rows)) =
     Inl (ValueError
       ''DataFrame is empty, lacks sales data, or sales data is not numeric.'') \<and>
   fst (f_2258 ''NonexistentCategory'' ''Revenue'' (fresh df_no_rows)) \<noteq>
     Inl (KeyError ''Revenue'')"
proof -
  have a: "index (df (fresh df_no_rows)) = []"
    by (simp add: fresh_def df_no_rows_def)
  have b: "map_of (columns (df (fresh df_no_rows))) ''Revenue'' = None \<and>
           map_of (columns (df (fresh df_no_rows))) ''NonexistentCategory'' = None"
    by (simp add: fresh_def df_no_rows_def)
  show ?thesis
    using no_rows_never_key_error [OF a, of "''NonexistentCategory''" "''Revenue''"] a b
    by simp
qed

section \<open>The validation of line 37\<close>

text \<open>
  Claim C3. A frame with rows, a sales column of a numeric kind and a category column
  in which some value occurs twice makes the call raise \<open>ValueError\<close> with the message
  of line 39.
\<close>

theorem duplicate_category_error:
  assumes "wf_frame (df s)"
    and "index (df s) \<noteq> []"
    and "map_of (columns (df s)) sales_col = Some c"
    and "kind c \<in> {KBool, KInt, KUInt, KFloat, KComplex}"
    and "map_of (columns (df s)) category_col = Some g"
    and "\<not> distinct (cells g)"
  shows "fst (f_2258 category_col sales_col s) =
           Inl (ValueError ''DataFrame contains duplicate entries in the category column.'')"
proof -
  from assms(2,3) have ne: "\<not> df_empty (df s)" by (rule df_empty_column)
  from assms(4) have num: "kind_char (kind c) \<in> set ''biufc''"
    by (simp only: numeric_kind_iff)
  have "f_2258 category_col sales_col s =
      (Inl (ValueError msg_duplicate), logging_error msg_duplicate s)"
    using ne assms(3) num assms(5,6) by (rule f_2258_duplicates)
  then show ?thesis by (simp add: msg_duplicate_def)
qed

theorem duplicate_category_error_witness:
  "wf_frame (df (fresh df_duplicate)) \<and>
   index (df (fresh df_duplicate)) \<noteq> [] \<and>
   (\<exists>c g. map_of (columns (df (fresh df_duplicate))) ''Sales'' = Some c \<and> kind c = KInt \<and>
          map_of (columns (df (fresh df_duplicate))) ''Category'' = Some g \<and>
          length (cells g) = 10 \<and> \<not> distinct (cells g)) \<and>
   fst (f_2258 ''Category'' ''Sales'' (fresh df_duplicate)) =
     Inl (ValueError ''DataFrame contains duplicate entries in the category column.'')"
proof -
  obtain c where c: "map_of (columns (df (fresh df_duplicate))) ''Sales'' = Some c"
      "kind c = KInt"
    by (simp add: fresh_def df_duplicate_def df_setup_def)
  obtain g where g: "map_of (columns (df (fresh df_duplicate))) ''Category'' = Some g"
      "length (cells g) = 10" "\<not> distinct (cells g)"
    by (simp add: fresh_def df_duplicate_def df_setup_def)
  have wf: "wf_frame (df (fresh df_duplicate))"
    by (simp add: wf_frame_def fresh_def df_duplicate_def df_setup_def range_index_def)
  have a: "index (df (fresh df_duplicate)) \<noteq> []"
    by (simp add: fresh_def df_duplicate_def range_index_def)
  have "kind c \<in> {KBool, KInt, KUInt, KFloat, KComplex}" using c(2) by simp
  from duplicate_category_error [OF wf a c(1) this g(1) g(3)] wf a c g show ?thesis
    by blast
qed

text \<open>
  Claim C4. The test of line 33 comes first: a frame with rows whose sales column is not
  numeric and whose category column has duplicates raises the \<open>ValueError\<close> of line 35,
  not the one of line 39.
\<close>

theorem non_numeric_before_duplicates:
  assumes "wf_frame (df s)"
    and "index (df s) \<noteq> []"
    and "map_of (columns (df s)) sales_col = Some c"
    and "kind c \<notin> {KBool, KInt, KUInt, KFloat, KComplex}"
    and "map_of (columns (df s)) category_col = Some g"
    and "\<not> distinct (cells g)"
  shows "fst (f_2258 category_col sales_col s) =
           Inl (ValueError
             ''DataFrame is empty, lacks sales data, or sales data is not numeric.'') \<and>
         fst (f_2258 category_col sales_col s) \<noteq>
           Inl (ValueError ''DataFrame contains duplicate entries in the category column.'')"
proof -
  from assms(2,3) have ne: "\<not> df_empty (df s)" by (rule df_empty_column)
  from assms(4) have "kind_char (kind c) \<notin> set ''biufc''"
    by (simp only: numeric_kind_iff) simp
  with ne assms(3) have "f_2258 category_col sales_col s =
      (Inl (ValueError msg_invalid), logging_error msg_invalid s)"
    by (rule f_2258_not_numeric)
  then show ?thesis
    using msg_differ by (simp add: msg_invalid_def msg_duplicate_def)
qed

theorem non_numeric_before_duplicates_witness:
  "wf_frame (df (fresh df_text_sales)) \<and>
   index (df (fresh df_text_sales)) \<noteq> [] \<and>
   map_of (columns (df (fresh df_text_sales))) ''Sales'' =
     Some \<lparr>kind = KObject, cells = [Some (Str ''high''), Some (Str ''low'')]\<rparr> \<and>
   map_of (columns (df (fresh df_text_sales))) ''Category'' =
     Some \<lparr>kind = KObject, cells = [Some (Str ''Home''), Some (Str ''Home'')]\<rparr> \<and>
   fst (f_2258 ''Category'' ''Sales'' (fresh df_text_sales)) =
     Inl (ValueError
       ''DataFrame is empty, lacks sales data, or sales data is not numeric.'') \<and>
   fst (f_2258 ''Category'' ''Sales'' (fresh df_text_sales)) \<noteq>
     Inl (ValueError ''DataFrame contains duplicate entries in the category column.'')"
proof -
  have wf: "wf_frame (df (fresh df_text_sales))"
    by (simp add: wf_frame_def fresh_def df_text_sales_def range_index_def)
  have a: "index (df (fresh df_text_sales)) \<noteq> []"
    by (simp add: fresh_def df_text_sales_def range_index_def)
  have c: "map_of (columns (df (fresh df_text_sales))) ''Sales'' =
     Some \<lparr>kind = KObject, cells = [Some (Str ''high''), Some (Str ''low'')]\<rparr>"
    by (simp add: fresh_def df_text_sales_def)
  have g: "map_of (columns (df (fresh df_text_sales))) ''Category'' =
     Some \<lparr>kind = KObject, cells = [Some (Str ''Home''), Some (Str ''Home'')]\<rparr>"
    by (simp add: fresh_def df_text_sales_def)
  from non_numeric_before_duplicates [OF wf a c _ g] wf a c g show ?thesis
    by simp
qed

text \<open>
  Claim C5. On a frame with rows and a numeric sales column, a category name that is
  not a column of the frame makes the call raise the \<open>KeyError\<close> of the lookup
  \<open>df[category_col]\<close>, and no \<open>ValueError\<close>.
\<close>

theorem missing_category_column_key_error:
  assumes "wf_frame (df s)"
    and "index (df s) \<noteq> []"
    and "map_of (columns (df s)) sales_col = Some c"
    and "kind c \<in> {KBool, KInt, KUInt, KFloat, KComplex}"
    and "map_of (columns (df s)) category_col = None"
  shows "fst (f_2258 category_col sales_col s) = Inl (KeyError category_col) \<and>
         (\<forall>m. fst (f_2258 category_col sales_col s) \<noteq> Inl (ValueError m))"
proof -
  from assms(2,3) have ne: "\<not> df_empty (df s)" by (rule df_empty_column)
  from assms(4) have num: "kind_char (kind c) \<in> set ''biufc''"
    by (simp only: numeric_kind_iff)
  have "f_2258 category_col sales_col s = (Inl (KeyError category_col), s)"
    using ne assms(3) num assms(5) by (rule f_2258_no_category_column)
  then show ?thesis by simp
qed

theorem missing_category_column_key_error_witness:
  "wf_frame (df (fresh df_setup)) \<and>
   index (df (fresh df_setup)) \<noteq> [] \<and>
   (\<exists>c. map_of (columns (df (fresh df_setup))) ''Sales'' = Some c \<and> kind c = KInt) \<and>
   map_of (columns (df (fresh df_setup))) ''NonexistentCategory'' = None \<and>
   fst (f_2258 ''NonexistentCategory'' ''Sales'' (fresh df_setup)) =
     Inl (KeyError ''NonexistentCategory'')"
proof -
  have wf: "wf_frame (df (fresh df_setup))"
    by (simp add: wf_frame_def fresh_def df_setup_def range_index_def)
  have a: "index (df (fresh df_setup)) \<noteq> []"
    by (simp add: fresh_def df_setup_def range_index_def)
  obtain c where c: "map_of (columns (df (fresh df_setup))) ''Sales'' = Some c"
      "kind c = KInt"
    by (simp add: fresh_def df_setup_def)
  have n: "map_of (columns (df (fresh df_setup))) ''NonexistentCategory'' = None"
    by (simp add: fresh_def df_setup_def)
  have "kind c \<in> {KBool, KInt, KUInt, KFloat, KComplex}" using c(2) by simp
  from missing_category_column_key_error [OF wf a c(1) this n] wf a c n show ?thesis
    by blast
qed

section \<open>Logging, the caller's frame and the returned value\<close>

text \<open>
  Claim C6. A call that raises \<open>ValueError\<close> has emitted exactly one log record before,
  at level ERROR and with the message of the exception, and has changed nothing else;
  a call that raises \<open>KeyError\<close> has emitted nothing and changed nothing.
\<close>

theorem error_is_logged_once:
  "(\<forall>m. fst (f_2258 category_col sales_col s) = Inl (ValueError m) \<longrightarrow>
        snd (f_2258 category_col sales_col s) = s\<lparr>log := log s @ [(ERROR, m)]\<rparr>) \<and>
   (\<forall>k. fst (f_2258 category_col sales_col s) = Inl (KeyError k) \<longrightarrow>
        snd (f_2258 category_col sales_col s) = s)"
  by (cases rule: f_2258_cases [of category_col sales_col s])
    (simp_all add: logging_error_def)

theorem error_is_logged_once_witness:
  "fst (f_2258 ''Category'' ''Sales'' (fresh df_duplicate)) =
     Inl (ValueError ''DataFrame contains duplicate entries in the category column.'') \<and>
   log (snd (f_2258 ''Category'' ''Sales'' (fresh df_duplicate))) =
     [(ERROR, ''DataFrame contains duplicate entries in the category column.'')] \<and>
   fst (f_2258 ''NonexistentCategory'' ''Sales'' (fresh df_setup)) =
     Inl (KeyError ''NonexistentCategory'') \<and>
   log (snd (f_2258 ''NonexistentCategory'' ''Sales'' (fresh df_setup))) = []"
proof -
  have a: "fst (f_2258 ''Category'' ''Sales'' (fresh df_duplicate)) =
     Inl (ValueError ''DataFrame contains duplicate entries in the category column.'')"
    by (simp add: f_2258_def df_empty_def getitem_def any_true_def duplicated_def
        fresh_def df_duplicate_def df_setup_def range_index_def msg_duplicate_def)
  have b: "fst (f_2258 ''NonexistentCategory'' ''Sales'' (fresh df_setup)) =
     Inl (KeyError ''NonexistentCategory'')"
    by (simp add: f_2258_def df_empty_def getitem_def
        fresh_def df_setup_def range_index_def)
  from error_is_logged_once [of "''Category''" "''Sales''" "fresh df_duplicate"] a
  have "snd (f_2258 ''Category'' ''Sales'' (fresh df_duplicate)) =
      (fresh df_duplicate)
        \<lparr>log := log (fresh df_duplicate) @
           [(ERROR, ''DataFrame contains duplicate entries in the category column.'')]\<rparr>"
    by blast
  then have c: "log (snd (f_2258 ''Category'' ''Sales'' (fresh df_duplicate))) =
     [(ERROR, ''DataFrame contains duplicate entries in the category column.'')]"
    by (simp add: fresh_def)
  from error_is_logged_once [of "''NonexistentCategory''" "''Sales''" "fresh df_setup"] b
  have "snd (f_2258 ''NonexistentCategory'' ''Sales'' (fresh df_setup)) = fresh df_setup"
    by blast
  then have d: "log (snd (f_2258 ''NonexistentCategory'' ''Sales'' (fresh df_setup))) = []"
    by (simp add: fresh_def)
  from a b c d show ?thesis by blast
qed

text \<open>
  Claim C8. The caller's frame is the same after the call as before it, whether the
  call returns or raises: the frame indexed by category is a new object.
\<close>

theorem caller_frame_unchanged:
  "df (snd (f_2258 category_col sales_col s)) = df s"
proof (cases rule: f_2258_cases [of category_col sales_col s])
  case (plots c g)
  show ?thesis
  proof (cases "current s")
    case None
    then show ?thesis
      by (simp add: plots(8) plt_show_def plt_ylabel_def plot_bar_def gca_def plots(7))
  next
    case (Some a)
    then show ?thesis
      by (simp add: plots(8) plt_show_def plt_ylabel_def plot_bar_def gca_def plots(7))
  qed
qed (simp_all add: logging_error_def gca_def split: option.splits)

theorem caller_frame_unchanged_witness:
  "df (snd (f_2258 ''Category'' ''Sales'' (fresh df_setup))) = df_setup \<and>
   df (snd (f_2258 ''Category'' ''Sales'' (fresh df_duplicate))) = df_duplicate"
  using caller_frame_unchanged [of "''Category''" "''Sales''" "fresh df_setup"]
    caller_frame_unchanged [of "''Category''" "''Sales''" "fresh df_duplicate"]
  by (simp add: fresh_def)

text \<open>
  Claim C10. A call that returns, returns a reference to an Axes object and never
  \<open>None\<close>; in particular a frame without rows does not make it return \<open>None\<close>.
\<close>

theorem never_returns_none:
  "fst (f_2258 category_col sales_col s) \<noteq> Inr PyNone \<and>
   (\<forall>v. fst (f_2258 category_col sales_col s) = Inr v \<longrightarrow> (\<exists>a. v = AxesRef a))"
  by (cases rule: f_2258_cases [of category_col sales_col s]) simp_all

theorem never_returns_none_witness:
  "fst (f_2258 ''Category'' ''Sales'' (fresh df_setup)) = Inr (AxesRef 0) \<and>
   fst (f_2258 ''Category'' ''Sales'' (fresh df_setup)) \<noteq> Inr PyNone \<and>
   fst (f_2258 ''Category'' ''Sales'' (fresh df_no_rows)) \<noteq> Inr PyNone"
proof -
  have "fst (f_2258 ''Category'' ''Sales'' (fresh df_setup)) = Inr (AxesRef 0)"
    by (simp add: f_2258_def df_empty_def getitem_def any_true_def duplicated_def
        set_index_def plot_bar_def gca_def
        fresh_def df_setup_def range_index_def)
  then show ?thesis
    using never_returns_none [of "''Category''" "''Sales''" "fresh df_setup"]
      never_returns_none [of "''Category''" "''Sales''" "fresh df_no_rows"]
    by simp
qed

section \<open>Rendering\<close>

text \<open>
  Claim C7. A call either passes both validations and leaves a complete chart, or
  raises and renders nothing. Complete means: the axes it returns has received one bar
  per row, bar \<open>i\<close> at tick \<open>i\<close> and as high as the sales value of row \<open>i\<close> (0 where
  that is missing), after the bars the axes already had; its tick labels are the
  categories; it has the title and the y-axis label; the figure has been handed to the
  backend. Rendering nothing means: nothing is handed to the backend and every axes is
  as before; at most a figure with an empty axes (no bar, no title, no label) has been
  opened, when none was open and the exception is the \<open>TypeError\<close> of the plot. The
  call does return a chart when the frame has rows, the sales column is of kind integer,
  unsigned integer, float or complex and the category column is another column, without
  duplicates.
\<close>

theorem rendering_all_or_nothing:
  assumes "wf_frame (df s)" and "wf_state s"
  shows "((\<exists>a c g bars.
            fst (f_2258 category_col sales_col s) = Inr (AxesRef a) \<and>
            index (df s) \<noteq> [] \<and>
            map_of (columns (df s)) sales_col = Some c \<and>
            kind c \<in> {KBool, KInt, KUInt, KFloat, KComplex} \<and>
            map_of (columns (df s)) category_col = Some g \<and>
            distinct (cells g) \<and>
            a < length (heap (snd (f_2258 category_col sales_col s))) \<and>
            patches (heap (snd (f_2258 category_col sales_col s)) ! a) =
              (case current s of None \<Rightarrow> [] | Some b \<Rightarrow> patches (heap s ! b)) @ bars \<and>
            length bars = length (index (df s)) \<and>
            (\<forall>i<length bars.
               pos (bars ! i) = i \<and>
               height (bars ! i) = (case cells c ! i of None \<Rightarrow> 0 | Some v \<Rightarrow> v)) \<and>
            xticklabels (heap (snd (f_2258 category_col sales_col s)) ! a) = cells g \<and>
            title (heap (snd (f_2258 category_col sales_col s)) ! a) =
              ''Sales Report by Category'' \<and>
            ylabel (heap (snd (f_2258 category_col sales_col s)) ! a) = ''Sales'' \<and>
            shown (snd (f_2258 category_col sales_col s)) = shown s @ [a] \<and>
            current (snd (f_2258 category_col sales_col s)) =
              (if show_closes s then None else Some a))
          \<or>
          (\<exists>e.
            fst (f_2258 category_col sales_col s) = Inl e \<and>
            shown (snd (f_2258 category_col sales_col s)) = shown s \<and>
            (heap (snd (f_2258 category_col sales_col s)) = heap s \<and>
             current (snd (f_2258 category_col sales_col s)) = current s
             \<or>
             (\<exists>m. e = TypeError m) \<and>
             current s = None \<and>
             heap (snd (f_2258 category_col sales_col s)) =
               heap s @ [\<lparr>patches = [], xticklabels = [], title = [], ylabel = []\<rparr>] \<and>
             current (snd (f_2258 category_col sales_col s)) = Some (length (heap s)))))
         \<and>
         (\<forall>c g.
            index (df s) \<noteq> [] \<and>
            map_of (columns (df s)) sales_col = Some c \<and>
            kind c \<in> {KInt, KUInt, KFloat, KComplex} \<and>
            map_of (columns (df s)) category_col = Some g \<and>
            distinct (cells g) \<and>
            category_col \<noteq> sales_col \<longrightarrow>
            (\<exists>a. fst (f_2258 category_col sales_col s) = Inr (AxesRef a)))"
proof
  show "(\<exists>a c g bars.
            fst (f_2258 category_col sales_col s) = Inr (AxesRef a) \<and>
            index (df s) \<noteq> [] \<and>
            map_of (columns (df s)) sales_col = Some c \<and>
            kind c \<in> {KBool, KInt, KUInt, KFloat, KComplex} \<and>
            map_of (columns (df s)) category_col = Some g \<and>
            distinct (cells g) \<and>
            a < length (heap (snd (f_2258 category_col sales_col s))) \<and>
            patches (heap (snd (f_2258 category_col sales_col s)) ! a) =
              (case current s of None \<Rightarrow> [] | Some b \<Rightarrow> patches (heap s ! b)) @ bars \<and>
            length bars = length (index (df s)) \<and>
            (\<forall>i<length bars.
               pos (bars ! i) = i \<and>
               height (bars ! i) = (case cells c ! i of None \<Rightarrow> 0 | Some v \<Rightarrow> v)) \<and>
            xticklabels (heap (snd (f_2258 category_col sales_col s)) ! a) = cells g \<and>
            title (heap (snd (f_2258 category_col sales_col s)) ! a) =
              ''Sales Report by Category'' \<and>
            ylabel (heap (snd (f_2258 category_col sales_col s)) ! a) = ''Sales'' \<and>
            shown (snd (f_2258 category_col sales_col s)) = shown s @ [a] \<and>
            current (snd (f_2258 category_col sales_col s)) =
              (if show_closes s then None else Some a))
          \<or>
          (\<exists>e.
            fst (f_2258 category_col sales_col s) = Inl e \<and>
            shown (snd (f_2258 category_col sales_col s)) = shown s \<and>
            (heap (snd (f_2258 category_col sales_col s)) = heap s \<and>
             current (snd (f_2258 category_col sales_col s)) = current s
             \<or>
             (\<exists>m. e = TypeError m) \<and>
             current s = None \<and>
             heap (snd (f_2258 category_col sales_col s)) =
               heap s @ [\<lparr>patches = [], xticklabels = [], title = [], ylabel = []\<rparr>] \<and>
             current (snd (f_2258 category_col sales_col s)) = Some (length (heap s))))"
  proof (cases rule: f_2258_cases [of category_col sales_col s])
    case type
    show ?thesis
    proof (cases "current s")
      case None
      then show ?thesis
        using type by (simp add: gca_new empty_axes_def)
    next
      case (Some b)
      then show ?thesis
        using type by (simp add: gca_open)
    qed
  next
    case (plots c g)
    let ?ser = "\<lparr>s_index = cells g, s_kind = kind c, s_values = cells c\<rparr>"
    let ?bars = "bars_of (cells c)"
    from plots(1) have rows: "index (df s) \<noteq> []" by (simp add: df_empty_def)
    from plots(3) have num: "kind c \<in> {KBool, KInt, KUInt, KFloat, KComplex}"
      by (simp only: numeric_kind_iff)
    have pl: "plottable (s_kind ?ser)" using plots(7) by simp
    from assms(1) plots(2) have len: "length ?bars = length (index (df s))"
      by (simp add: bars_of_length wf_frame_column_length)
    have nth: "\<forall>i<length ?bars.
        pos (?bars ! i) = i \<and>
        height (?bars ! i) = (case cells c ! i of None \<Rightarrow> 0 | Some v \<Rightarrow> v)"
      by (simp add: bars_of_length bars_of_nth fillna0_def)
    show ?thesis
    proof (cases "current s")
      case None
      from plot_fresh [OF None pl, of "''Sales''" chart_title]
      have "f_2258 category_col sales_col s =
          (Inr (AxesRef (length (heap s))),
           s\<lparr>heap := heap s @
                [\<lparr>patches = ?bars, xticklabels = cells g,
                  title = chart_title, ylabel = ''Sales''\<rparr>],
             current := (if show_closes s then None else Some (length (heap s))),
             shown := shown s @ [length (heap s)]\<rparr>)"
        using plots(8) None by (simp add: gca_fresh)
      with rows num plots(2,4,5) None len nth show ?thesis
        by (intro disjI1 exI [of _ "length (heap s)"] exI [of _ c] exI [of _ g]
            exI [of _ ?bars]) (simp add: chart_title_def)
    next
      case (Some b)
      with assms(2) have b: "b < length (heap s)" by (simp add: wf_state_def)
      from plot_reuse [OF Some b pl, of "''Sales''" chart_title]
      have "f_2258 category_col sales_col s =
          (Inr (AxesRef b),
           s\<lparr>heap := (heap s)
                [b := (heap s ! b)
                   \<lparr>patches := patches (heap s ! b) @ ?bars,
                    xticklabels := cells g, title := chart_title, ylabel := ''Sales''\<rparr>],
             current := (if show_closes s then None else Some b),
             shown := shown s @ [b]\<rparr>)"
        using plots(8) Some by (simp add: gca_reuse)
      with rows num plots(2,4,5) Some b len nth show ?thesis
        by (intro disjI1 exI [of _ b] exI [of _ c] exI [of _ g] exI [of _ ?bars])
          (simp add: chart_title_def)
    qed
  qed (simp_all add: logging_error_def)
next
  show "\<forall>c g.
          index (df s) \<noteq> [] \<and>
          map_of (columns (df s)) sales_col = Some c \<and>
          kind c \<in> {KInt, KUInt, KFloat, KComplex} \<and>
          map_of (columns (df s)) category_col = Some g \<and>
          distinct (cells g) \<and>
          category_col \<noteq> sales_col \<longrightarrow>
          (\<exists>a. fst (f_2258 category_col sales_col s) = Inr (AxesRef a))"
  proof (intro allI impI)
    fix c g
    assume h: "index (df s) \<noteq> [] \<and>
          map_of (columns (df s)) sales_col = Some c \<and>
          kind c \<in> {KInt, KUInt, KFloat, KComplex} \<and>
          map_of (columns (df s)) category_col = Some g \<and>
          distinct (cells g) \<and>
          category_col \<noteq> sales_col"
    then have ne: "\<not> df_empty (df s)" using df_empty_column by blast
    from h have num: "kind_char (kind c) \<in> set ''biufc''"
      by (simp only: numeric_kind_iff) auto
    from h have pl: "plottable (kind c)"
      by (simp only: plottable_iff) auto
    from ne h num pl have "f_2258 category_col sales_col s =
        (Inr (AxesRef (fst (gca s))),
         plt_show (plt_ylabel ''Sales''
           (snd (plot_bar \<lparr>s_index = cells g, s_kind = kind c, s_values = cells c\<rparr>
                   chart_title s))))"
      using f_2258_plots by blast
    then show "\<exists>a. fst (f_2258 category_col sales_col s) = Inr (AxesRef a)"
      by simp
  qed
qed

theorem rendering_all_or_nothing_witness:
  "wf_frame (df (fresh df_setup)) \<and> wf_state (fresh df_setup) \<and>
   fst (f_2258 ''Category'' ''Sales'' (fresh df_setup)) = Inr (AxesRef 0) \<and>
   patches (heap (snd (f_2258 ''Category'' ''Sales'' (fresh df_setup))) ! 0) =
     [\<lparr>pos = 0, height = Num 1000\<rparr>, \<lparr>pos = 1, height = Num 1500\<rparr>,
      \<lparr>pos = 2, height = Num 1200\<rparr>, \<lparr>pos = 3, height = Num 800\<rparr>,
      \<lparr>pos = 4, height = Num 1100\<rparr>] \<and>
   xticklabels (heap (snd (f_2258 ''Category'' ''Sales'' (fresh df_setup))) ! 0) =
     [Some (Str ''Electronics''), Some (Str ''Clothing''), Some (Str ''Home''),
      Some (Str ''Books''), Some (Str ''Sports'')] \<and>
   title (heap (snd (f_2258 ''Category'' ''Sales'' (fresh df_setup))) ! 0) =
     ''Sales Report by Category'' \<and>
   ylabel (heap (snd (f_2258 ''Category'' ''Sales'' (fresh df_setup))) ! 0) = ''Sales'' \<and>
   shown (snd (f_2258 ''Category'' ''Sales'' (fresh df_setup))) = [0] \<and>
   wf_frame (df (fresh df_duplicate)) \<and> wf_state (fresh df_duplicate) \<and>
   fst (f_2258 ''Category'' ''Sales'' (fresh df_duplicate)) =
     Inl (ValueError ''DataFrame contains duplicate entries in the category column.'') \<and>
   heap (snd (f_2258 ''Category'' ''Sales'' (fresh df_duplicate))) = [] \<and>
   current (snd (f_2258 ''Category'' ''Sales'' (fresh df_duplicate))) = None \<and>
   shown (snd (f_2258 ''Category'' ''Sales'' (fresh df_duplicate))) = [] \<and>
   wf_frame (df (fresh df_bool_sales)) \<and> wf_state (fresh df_bool_sales) \<and>
   fst (f_2258 ''Category'' ''Sales'' (fresh df_bool_sales)) =
     Inl (TypeError ''no numeric data to plot'') \<and>
   heap (snd (f_2258 ''Category'' ''Sales'' (fresh df_bool_sales))) =
     [\<lparr>patches = [], xticklabels = [], title = [], ylabel = []\<rparr>] \<and>
   shown (snd (f_2258 ''Category'' ''Sales'' (fresh df_bool_sales))) = []"
proof -
  have wf: "wf_frame (df (fresh df_setup))" "wf_frame (df (fresh df_duplicate))"
      "wf_frame (df (fresh df_bool_sales))"
    by (simp_all add: wf_frame_def fresh_def df_setup_def df_duplicate_def df_bool_sales_def
        range_index_def)
  have ws: "wf_state (fresh df_setup)" "wf_state (fresh df_duplicate)"
      "wf_state (fresh df_bool_sales)"
    by (simp_all add: wf_state_def fresh_def)
  have r1: "f_2258 ''Category'' ''Sales'' (fresh df_setup) =
      (Inr (AxesRef 0),
       (fresh df_setup)
         \<lparr>heap :=
            [\<lparr>patches =
                [\<lparr>pos = 0, height = Num 1000\<rparr>, \<lparr>pos = 1, height = Num 1500\<rparr>,
                 \<lparr>pos = 2, height = Num 1200\<rparr>, \<lparr>pos = 3, height = Num 800\<rparr>,
                 \<lparr>pos = 4, height = Num 1100\<rparr>],
              xticklabels =
                [Some (Str ''Electronics''), Some (Str ''Clothing''), Some (Str ''Home''),
                 Some (Str ''Books''), Some (Str ''Sports'')],
              title = ''Sales Report by Category'', ylabel = ''Sales''\<rparr>],
          current := Some 0, shown := [0]\<rparr>)"
    by (simp add: f_2258_def df_empty_def getitem_def any_true_def duplicated_def
        set_index_def plot_bar_def gca_def plt_ylabel_def plt_show_def empty_axes_def
        bars_of_def fillna0_def chart_title_def
        fresh_def df_setup_def range_index_def)
  have r2: "fst (f_2258 ''Category'' ''Sales'' (fresh df_duplicate)) =
     Inl (ValueError ''DataFrame contains duplicate entries in the category column.'')"
    by (simp add: f_2258_def df_empty_def getitem_def any_true_def duplicated_def
        fresh_def df_duplicate_def df_setup_def range_index_def msg_duplicate_def)
  have r3: "f_2258 ''Category'' ''Sales'' (fresh df_bool_sales) =
      (Inl (TypeError ''no numeric data to plot''),
       (fresh df_bool_sales)
         \<lparr>heap := [\<lparr>patches = [], xticklabels = [], title = [], ylabel = []\<rparr>],
          current := Some 0\<rparr>)"
    by (simp add: f_2258_def df_empty_def getitem_def any_true_def duplicated_def
        set_index_def plot_bar_def gca_def empty_axes_def
        fresh_def df_bool_sales_def range_index_def)
  have s2: "heap (fresh df_duplicate) = []" "current (fresh df_duplicate) = None"
      "shown (fresh df_duplicate) = []"
    by (simp_all add: fresh_def)
  have s3: "shown (fresh df_bool_sales) = []"
    by (simp add: fresh_def)
  from rendering_all_or_nothing [OF wf(2) ws(2), of "''Category''" "''Sales''"] r2 s2
  have p2: "heap (snd (f_2258 ''Category'' ''Sales'' (fresh df_duplicate))) = [] \<and>
      current (snd (f_2258 ''Category'' ''Sales'' (fresh df_duplicate))) = None \<and>
      shown (snd (f_2258 ''Category'' ''Sales'' (fresh df_duplicate))) = []"
    by auto
  from rendering_all_or_nothing [OF wf(3) ws(3), of "''Category''" "''Sales''"] r3 s3
  have p3: "shown (snd (f_2258 ''Category'' ''Sales'' (fresh df_bool_sales))) = []"
    by auto
  have q1: "fst (f_2258 ''Category'' ''Sales'' (fresh df_setup)) = Inr (AxesRef 0) \<and>
     patches (heap (snd (f_2258 ''Category'' ''Sales'' (fresh df_setup))) ! 0) =
       [\<lparr>pos = 0, height = Num 1000\<rparr>, \<lparr>pos = 1, height = Num 1500\<rparr>,
        \<lparr>pos = 2, height = Num 1200\<rparr>, \<lparr>pos = 3, height = Num 800\<rparr>,
        \<lparr>pos = 4, height = Num 1100\<rparr>] \<and>
     xticklabels (heap (snd (f_2258 ''Category'' ''Sales'' (fresh df_setup))) ! 0) =
       [Some (Str ''Electronics''), Some (Str ''Clothing''), Some (Str ''Home''),
        Some (Str ''Books''), Some (Str ''Sports'')] \<and>
     title (heap (snd (f_2258 ''Category'' ''Sales'' (fresh df_setup))) ! 0) =
       ''Sales Report by Category'' \<and>
     ylabel (heap (snd (f_2258 ''Category'' ''Sales'' (fresh df_setup))) ! 0) = ''Sales'' \<and>
     shown (snd (f_2258 ''Category'' ''Sales'' (fresh df_setup))) = [0]"
    unfolding r1 by simp
  have q3: "fst (f_2258 ''Category'' ''Sales'' (fresh df_bool_sales)) =
       Inl (TypeError ''no numeric data to plot'') \<and>
     heap (snd (f_2258 ''Category'' ''Sales'' (fresh df_bool_sales))) =
       [\<lparr>patches = [], xticklabels = [], title = [], ylabel = []\<rparr>]"
    unfolding r3 by simp
  from wf ws r2 p2 p3 q1 q3 show ?thesis by blast
qed

section \<open>The chart of a valid frame\<close>

text \<open>
  Claim C1 says that every frame with rows, a numeric sales column and a category
  column without duplicates gets a chart with exactly one bar per row. The function
  departs from that on two inputs the claim covers.
  \<^item> The call of \<open>test_single_category_input\<close> made after the call of
    \<open>test_sales_data_input\<close> in the same process, with a backend that leaves figures
    open: the plot draws on the axes of the earlier chart, and the handle the call
    returns for the frame of one row has six bars. The test asserts one.
  \<^item> A boolean sales column: it passes the test of line 33, and the plot raises
    \<open>TypeError\<close>, an exception the docstring of the function does not list.
\<close>

theorem second_chart_and_boolean_sales:
  "wf_frame df_single \<and>
   length (index df_single) = 1 \<and>
   (\<exists>c g. map_of (columns df_single) ''Sales'' = Some c \<and> kind c = KInt \<and>
          map_of (columns df_single) ''Category'' = Some g \<and> distinct (cells g)) \<and>
   fst (f_2258 ''Category'' ''Sales''
          ((snd (f_2258 ''Category'' ''Sales'' (fresh df_setup)))\<lparr>df := df_single\<rparr>)) =
     Inr (AxesRef 0) \<and>
   patches
     (heap (snd (f_2258 ''Category'' ''Sales''
        ((snd (f_2258 ''Category'' ''Sales'' (fresh df_setup)))\<lparr>df := df_single\<rparr>))) ! 0) =
     [\<lparr>pos = 0, height = Num 1000\<rparr>, \<lparr>pos = 1, height = Num 1500\<rparr>,
      \<lparr>pos = 2, height = Num 1200\<rparr>, \<lparr>pos = 3, height = Num 800\<rparr>,
      \<lparr>pos = 4, height = Num 1100\<rparr>, \<lparr>pos = 0, height = Num 1000\<rparr>] \<and>
   wf_frame df_bool_sales \<and>
   length (index df_bool_sales) = 2 \<and>
   map_of (columns df_bool_sales) ''Sales'' =
     Some \<lparr>kind = KBool, cells = [Some (Num 1), Some (Num 0)]\<rparr> \<and>
   map_of (columns df_bool_sales) ''Category'' =
     Some \<lparr>kind = KObject, cells = [Some (Str ''Home''), Some (Str ''Books'')]\<rparr> \<and>
   fst (f_2258 ''Category'' ''Sales'' (fresh df_bool_sales)) =
     Inl (TypeError ''no numeric data to plot'')"
proof -
  have first: "snd (f_2258 ''Category'' ''Sales'' (fresh df_setup)) =
      (fresh df_setup)
        \<lparr>heap :=
           [\<lparr>patches =
               [\<lparr>pos = 0, height = Num 1000\<rparr>, \<lparr>pos = 1, height = Num 1500\<rparr>,
                \<lparr>pos = 2, height = Num 1200\<rparr>, \<lparr>pos = 3, height = Num 800\<rparr>,
                \<lparr>pos = 4, height = Num 1100\<rparr>],
             xticklabels =
               [Some (Str ''Electronics''), Some (Str ''Clothing''), Some (Str ''Home''),
                Some (Str ''Books''), Some (Str ''Sports'')],
             title = ''Sales Report by Category'', ylabel = ''Sales''\<rparr>],
         current := Some 0, shown := [0]\<rparr>"
    by (simp add: f_2258_def df_empty_def getitem_def any_true_def duplicated_def
        set_index_def plot_bar_def gca_def plt_ylabel_def plt_show_def empty_axes_def
        bars_of_def fillna0_def chart_title_def
        fresh_def df_setup_def range_index_def)
  have a: "wf_frame df_single \<and>
     length (index df_single) = 1 \<and>
     (\<exists>c g. map_of (columns df_single) ''Sales'' = Some c \<and> kind c = KInt \<and>
            map_of (columns df_single) ''Category'' = Some g \<and> distinct (cells g))"
    by (simp add: wf_frame_def df_single_def range_index_def)
  have b: "fst (f_2258 ''Category'' ''Sales''
            ((snd (f_2258 ''Category'' ''Sales'' (fresh df_setup)))\<lparr>df := df_single\<rparr>)) =
       Inr (AxesRef 0) \<and>
     patches
       (heap (snd (f_2258 ''Category'' ''Sales''
          ((snd (f_2258 ''Category'' ''Sales'' (fresh df_setup)))\<lparr>df := df_single\<rparr>))) ! 0) =
       [\<lparr>pos = 0, height = Num 1000\<rparr>, \<lparr>pos = 1, height = Num 1500\<rparr>,
        \<lparr>pos = 2, height = Num 1200\<rparr>, \<lparr>pos = 3, height = Num 800\<rparr>,
        \<lparr>pos = 4, height = Num 1100\<rparr>, \<lparr>pos = 0, height = Num 1000\<rparr>]"
    unfolding first
    by (simp add: f_2258_def df_empty_def getitem_def any_true_def duplicated_def
        set_index_def plot_bar_def gca_def plt_ylabel_def plt_show_def
        bars_of_def fillna0_def fresh_def df_single_def range_index_def)
  have c: "wf_frame df_bool_sales \<and>
     length (index df_bool_sales) = 2 \<and>
     map_of (columns df_bool_sales) ''Sales'' =
       Some \<lparr>kind = KBool, cells = [Some (Num 1), Some (Num 0)]\<rparr> \<and>
     map_of (columns df_bool_sales) ''Category'' =
       Some \<lparr>kind = KObject, cells = [Some (Str ''Home''), Some (Str ''Books'')]\<rparr> \<and>
     fst (f_2258 ''Category'' ''Sales'' (fresh df_bool_sales)) =
       Inl (TypeError ''no numeric data to plot'')"
    by (simp add: wf_frame_def f_2258_def df_empty_def getitem_def any_true_def
        duplicated_def set_index_def plot_bar_def gca_def
        fresh_def df_bool_sales_def range_index_def)
  from a b c show ?thesis by blast
qed

text \<open>
  What the function does for the frames of claim C1 otherwise. Take a frame with rows
  whose sales column is of kind integer, unsigned integer, float or complex and whose
  category column is another column, without duplicates, and a call made while no
  figure is open or the current axes has no bars yet. The call returns an axes with
  exactly one bar per row, bar \<open>i\<close> at tick \<open>i\<close> and as high as the sales value of row
  \<open>i\<close>, 0 where that value is missing; the tick labels are the categories in row order,
  the y-axis label is "Sales" and the title "Sales Report by Category".
\<close>

theorem bar_chart_of_valid_frame:
  assumes "wf_frame (df s)"
    and "index (df s) \<noteq> []"
    and "map_of (columns (df s)) sales_col = Some c"
    and "kind c \<in> {KInt, KUInt, KFloat, KComplex}"
    and "map_of (columns (df s)) category_col = Some g"
    and "distinct (cells g)"
    and "category_col \<noteq> sales_col"
    and "case current s of None \<Rightarrow> True
         | Some b \<Rightarrow> b < length (heap s) \<and> patches (heap s ! b) = []"
  shows "\<exists>a. fst (f_2258 category_col sales_col s) = Inr (AxesRef a) \<and>
             a < length (heap (snd (f_2258 category_col sales_col s))) \<and>
             length (patches (heap (snd (f_2258 category_col sales_col s)) ! a)) =
               length (index (df s)) \<and>
             (\<forall>i<length (index (df s)).
                pos (patches (heap (snd (f_2258 category_col sales_col s)) ! a) ! i) = i \<and>
                height (patches (heap (snd (f_2258 category_col sales_col s)) ! a) ! i) =
                  (case cells c ! i of None \<Rightarrow> 0 | Some v \<Rightarrow> v)) \<and>
             xticklabels (heap (snd (f_2258 category_col sales_col s)) ! a) = cells g \<and>
             ylabel (heap (snd (f_2258 category_col sales_col s)) ! a) = ''Sales'' \<and>
             title (heap (snd (f_2258 category_col sales_col s)) ! a) =
               ''Sales Report by Category''"
proof -
  let ?ser = "\<lparr>s_index = cells g, s_kind = kind c, s_values = cells c\<rparr>"
  let ?bars = "bars_of (cells c)"
  from assms(2,3) have ne: "\<not> df_empty (df s)" by (rule df_empty_column)
  from assms(4) have num: "kind_char (kind c) \<in> set ''biufc''"
    by (simp only: numeric_kind_iff) auto
  from assms(4) have pl: "plottable (kind c)"
    by (simp only: plottable_iff) auto
  then have pl': "plottable (s_kind ?ser)" by simp
  from assms(1,3) have len: "length (cells c) = length (index (df s))"
    by (rule wf_frame_column_length)
  have nth: "\<forall>i<length (index (df s)).
      pos (?bars ! i) = i \<and>
      height (?bars ! i) = (case cells c ! i of None \<Rightarrow> 0 | Some v \<Rightarrow> v)"
    using len by (simp add: bars_of_nth fillna0_def)
  have run: "f_2258 category_col sales_col s =
          (Inr (AxesRef (fst (gca s))),
           plt_show (plt_ylabel ''Sales'' (snd (plot_bar ?ser chart_title s))))"
    using ne assms(3) num assms(5,6,7) pl by (rule f_2258_plots)
  show ?thesis
  proof (cases "current s")
    case None
    from plot_fresh [OF None pl', of "''Sales''" chart_title] run None
    have "f_2258 category_col sales_col s =
        (Inr (AxesRef (length (heap s))),
         s\<lparr>heap := heap s @
              [\<lparr>patches = ?bars, xticklabels = cells g,
                title = chart_title, ylabel = ''Sales''\<rparr>],
           current := (if show_closes s then None else Some (length (heap s))),
           shown := shown s @ [length (heap s)]\<rparr>)"
      by (simp add: gca_fresh)
    with len nth show ?thesis
      by (intro exI [of _ "length (heap s)"]) (simp add: bars_of_length chart_title_def)
  next
    case (Some b)
    with assms(8) have b: "b < length (heap s)" and empty: "patches (heap s ! b) = []"
      by simp_all
    from plot_reuse [OF Some b pl', of "''Sales''" chart_title] run Some
    have "f_2258 category_col sales_col s =
        (Inr (AxesRef b),
         s\<lparr>heap := (heap s)
              [b := (heap s ! b)
                 \<lparr>patches := patches (heap s ! b) @ ?bars,
                  xticklabels := cells g, title := chart_title, ylabel := ''Sales''\<rparr>],
           current := (if show_closes s then None else Some b),
           shown := shown s @ [b]\<rparr>)"
      by (simp add: gca_reuse)
    with len nth b empty show ?thesis
      by (intro exI [of _ b]) (simp add: bars_of_length chart_title_def)
  qed
qed

theorem bar_chart_of_valid_frame_witness:
  "wf_frame (df (fresh df_missing_sales)) \<and>
   index (df (fresh df_missing_sales)) \<noteq> [] \<and>
   current (fresh df_missing_sales) = None \<and>
   fst (f_2258 ''Category'' ''Sales'' (fresh df_missing_sales)) = Inr (AxesRef 0) \<and>
   patches (heap (snd (f_2258 ''Category'' ''Sales'' (fresh df_missing_sales))) ! 0) =
     [\<lparr>pos = 0, height = Num 1200\<rparr>, \<lparr>pos = 1, height = Num 0\<rparr>] \<and>
   xticklabels (heap (snd (f_2258 ''Category'' ''Sales'' (fresh df_missing_sales))) ! 0) =
     [Some (Str ''Home''), Some (Str ''Books'')] \<and>
   ylabel (heap (snd (f_2258 ''Category'' ''Sales'' (fresh df_missing_sales))) ! 0) =
     ''Sales'' \<and>
   title (heap (snd (f_2258 ''Category'' ''Sales'' (fresh df_missing_sales))) ! 0) =
     ''Sales Report by Category''"
proof -
  have wf: "wf_frame (df (fresh df_missing_sales))"
    by (simp add: wf_frame_def fresh_def df_missing_sales_def range_index_def)
  have rows: "index (df (fresh df_missing_sales)) \<noteq> []"
    by (simp add: fresh_def df_missing_sales_def range_index_def)
  have c: "map_of (columns (df (fresh df_missing_sales))) ''Sales'' =
      Some \<lparr>kind = KFloat, cells = [Some (Num 1200), None]\<rparr>"
    by (simp add: fresh_def df_missing_sales_def)
  have g: "map_of (columns (df (fresh df_missing_sales))) ''Category'' =
      Some \<lparr>kind = KObject, cells = [Some (Str ''Home''), Some (Str ''Books'')]\<rparr>"
    by (simp add: fresh_def df_missing_sales_def)
  have cur: "current (fresh df_missing_sales) = None"
    by (simp add: fresh_def)
  have r: "fst (f_2258 ''Category'' ''Sales'' (fresh df_missing_sales)) = Inr (AxesRef 0)"
    by (simp add: f_2258_def df_empty_def getitem_def any_true_def duplicated_def
        set_index_def plot_bar_def gca_def
        fresh_def df_missing_sales_def range_index_def)
  have p: "patches (heap (snd (f_2258 ''Category'' ''Sales'' (fresh df_missing_sales))) ! 0) =
     [\<lparr>pos = 0, height = Num 1200\<rparr>, \<lparr>pos = 1, height = Num 0\<rparr>]"
    by (simp add: f_2258_def df_empty_def getitem_def any_true_def duplicated_def
        set_index_def plot_bar_def gca_def plt_ylabel_def plt_show_def empty_axes_def
        bars_of_def fillna0_def zero_scalar_def
        fresh_def df_missing_sales_def range_index_def)
  from bar_chart_of_valid_frame [OF wf rows c _ g] r cur
  have "xticklabels (heap (snd (f_2258 ''Category'' ''Sales'' (fresh df_missing_sales))) ! 0) =
       [Some (Str ''Home''), Some (Str ''Books'')] \<and>
     ylabel (heap (snd (f_2258 ''Category'' ''Sales'' (fresh df_missing_sales))) ! 0) =
       ''Sales'' \<and>
     title (heap (snd (f_2258 ''Category'' ''Sales'' (fresh df_missing_sales))) ! 0) =
       ''Sales Report by Category''"
    by auto
  with wf rows cur r p show ?thesis by blast
qed

end
